theory Spec2Isabelle
  imports Main
begin

section \<open>Python values\<close>

text \<open>
  The feed is decoded JSON, so a raw record is a Python value: \<open>None\<close>, a bool, a
  number, a string, a list or a dict. Only the truth value and the type of a number are
  ever inspected by the program, so numbers are integers here. A decoded dict has
  distinct keys and is kept as an association list.
\<close>

datatype pyval =
    PNone
  | PBool bool
  | PInt int
  | PStr string
  | PList "pyval list"
  | PDict "(string \<times> pyval) list"

datatype exn = AttributeError | TypeError | ValueError | DatabaseError

text \<open>Python's truth value test, as used by \<^verbatim>\<open>not x\<close> and \<^verbatim>\<open>if x\<close>.\<close>

fun truthy :: "pyval \<Rightarrow> bool" where
  "truthy PNone = False"
| "truthy (PBool b) = b"
| "truthy (PInt n) = (n \<noteq> 0)"
| "truthy (PStr s) = (s \<noteq> [])"
| "truthy (PList xs) = (xs \<noteq> [])"
| "truthy (PDict kvs) = (kvs \<noteq> [])"

text \<open>\<^verbatim>\<open>d.get(k, default)\<close>: the default is used only when the key is absent.\<close>

definition dict_get :: "(string \<times> pyval) list \<Rightarrow> string \<Rightarrow> pyval \<Rightarrow> pyval" where
  "dict_get d k dflt = (case map_of d k of None \<Rightarrow> dflt | Some v \<Rightarrow> v)"

text \<open>
  \<^verbatim>\<open>for item in x\<close>: a list yields its elements, a dict its keys, a string its
  characters; anything else is not iterable.
\<close>

fun py_iter :: "pyval \<Rightarrow> exn + pyval list" where
  "py_iter (PList xs) = Inr xs"
| "py_iter (PDict kvs) = Inr (map (\<lambda>kv. PStr (fst kv)) kvs)"
| "py_iter (PStr s) = Inr (map (\<lambda>c. PStr [c]) s)"
| "py_iter PNone = Inl TypeError"
| "py_iter (PBool b) = Inl TypeError"
| "py_iter (PInt n) = Inl TypeError"

section \<open>Strings\<close>

text \<open>
  Strings are byte strings restricted to ASCII: \<^verbatim>\<open>str.strip()\<close> removes the ASCII
  characters for which \<^verbatim>\<open>str.isspace()\<close> holds (tab to carriage return, the four
  separators 28 to 31, and the space), \<^verbatim>\<open>str.lower()\<close> maps A to Z.
\<close>

definition is_space :: "char \<Rightarrow> bool" where
  "is_space c =
     (let n = (of_char c :: nat) in (9 \<le> n \<and> n \<le> 13) \<or> (28 \<le> n \<and> n \<le> 32))"

definition strip :: "string \<Rightarrow> string" where
  "strip s = rev (dropWhile is_space (rev (dropWhile is_space s)))"

definition lower_char :: "char \<Rightarrow> char" where
  "lower_char c =
     (case map_of (zip ''ABCDEFGHIJKLMNOPQRSTUVWXYZ'' ''abcdefghijklmnopqrstuvwxyz'') c of
        None \<Rightarrow> c
      | Some l \<Rightarrow> l)"

definition lower :: "string \<Rightarrow> string" where
  "lower s = map lower_char s"

definition digit_value :: "char \<Rightarrow> int" where
  "digit_value c = (of_char c :: int) - 48"

definition digit_char :: "int \<Rightarrow> char" where
  "digit_char n = ''0123456789'' ! nat (n mod 10)"

text \<open>\<^verbatim>\<open>int(s)\<close> on a run of decimal digits, surrounding blanks ignored.\<close>

definition int_of_digits :: "string \<Rightarrow> int" where
  "int_of_digits s = foldl (\<lambda>acc c. 10 * acc + digit_value c) 0 (strip s)"

section \<open>Timestamps\<close>

record datetime =
  year :: int
  month :: int
  day :: int
  hour :: int
  minute :: int
  second :: int
  microsecond :: int

text \<open>Naive datetimes compare field by field, most significant first.\<close>

definition dt_fields :: "datetime \<Rightarrow> int list" where
  "dt_fields d = [year d, month d, day d, hour d, minute d, second d, microsecond d]"

fun lex_less :: "int list \<Rightarrow> int list \<Rightarrow> bool" where
  "lex_less (x # xs) (y # ys) = (x < y \<or> (x = y \<and> lex_less xs ys))"
| "lex_less [] (y # ys) = True"
| "lex_less xs [] = False"

definition dt_less :: "datetime \<Rightarrow> datetime \<Rightarrow> bool" where
  "dt_less a b = lex_less (dt_fields a) (dt_fields b)"

definition is_leap :: "int \<Rightarrow> bool" where
  "is_leap y = (y mod 4 = 0 \<and> (y mod 100 \<noteq> 0 \<or> y mod 400 = 0))"

definition days_in_month :: "int \<Rightarrow> int \<Rightarrow> int" where
  "days_in_month y m =
     (if m = 2 then (if is_leap y then 29 else 28)
      else if m \<in> set [4, 6, 9, 11] then 30 else 31)"

section \<open>The library call \<^verbatim>\<open>datetime.strptime\<close>\<close>

text \<open>
  CPython turns a format into a regular expression, one alternation per directive, any
  run of blanks in the format into \<^verbatim>\<open>\s+\<close>, and takes the first match that
  backtracking finds at the start of the string; text left over after that match is an
  error, as is a field the date and time constructors reject. Every failure is a
  \<^verbatim>\<open>ValueError\<close>.
\<close>

datatype cclass = Digit | Range char char | Exactly char

fun in_class :: "cclass \<Rightarrow> char \<Rightarrow> bool" where
  "in_class Digit c = (48 \<le> (of_char c :: nat) \<and> (of_char c :: nat) \<le> 57)"
| "in_class (Range a b) c =
     ((of_char a :: nat) \<le> of_char c \<and> (of_char c :: nat) \<le> of_char b)"
| "in_class (Exactly a) c = (c = a)"

fun match_seq :: "cclass list \<Rightarrow> string \<Rightarrow> (string \<times> string) option" where
  "match_seq [] s = Some ([], s)"
| "match_seq (k # ks) [] = None"
| "match_seq (k # ks) (x # xs) =
     (if in_class k x
      then (case match_seq ks xs of None \<Rightarrow> None | Some (m, r) \<Rightarrow> Some (x # m, r))
      else None)"

datatype token = Group "cclass list list" | Lit char | Spaces

text \<open>
  \<open>rx\<close> returns the captured groups and the unread rest of the first match in
  backtracking order: the alternatives of a group left to right, \<^verbatim>\<open>\s+\<close> longest
  first.
\<close>

function rx :: "token list \<Rightarrow> string \<Rightarrow> (string list \<times> string) option"
  and rx_spaces :: "token list \<Rightarrow> string \<Rightarrow> nat \<Rightarrow> (string list \<times> string) option" where
  "rx [] s = Some ([], s)"
| "rx (Lit c # ts) s = (case s of [] \<Rightarrow> None | x # xs \<Rightarrow> if x = c then rx ts xs else None)"
| "rx (Spaces # ts) s = rx_spaces ts s (length (takeWhile is_space s))"
| "rx (Group [] # ts) s = None"
| "rx (Group (a # alts) # ts) s =
     (case match_seq a s of
        None \<Rightarrow> rx (Group alts # ts) s
      | Some (m, r) \<Rightarrow>
          (case rx ts r of
             None \<Rightarrow> rx (Group alts # ts) s
           | Some (fs, r') \<Rightarrow> Some (m # fs, r')))"
| "rx_spaces ts s 0 = None"
| "rx_spaces ts s (Suc n) =
     (case rx ts (drop (Suc n) s) of
        None \<Rightarrow> rx_spaces ts s n
      | Some res \<Rightarrow> Some res)"
  by pat_completeness auto
termination
  by (relation "inv_image (less_than <*lex*> less_than)
        (case_sum
           (\<lambda>(toks, s). (2 * length toks, case toks of Group alts # _ \<Rightarrow> length alts | _ \<Rightarrow> 0))
           (\<lambda>(ts, s, n). (2 * length ts + 1, n)))") auto

text \<open>The directives, with the alternations of \<^verbatim>\<open>_strptime.TimeRE\<close>.\<close>

definition dir_Y :: token where
  "dir_Y = Group [[Digit, Digit, Digit, Digit]]"

definition dir_m :: token where
  "dir_m = Group [[Exactly CHR ''1'', Range CHR ''0'' CHR ''2''],
                  [Exactly CHR ''0'', Range CHR ''1'' CHR ''9''],
                  [Range CHR ''1'' CHR ''9'']]"

definition dir_d :: token where
  "dir_d = Group [[Exactly CHR ''3'', Range CHR ''0'' CHR ''1''],
                  [Range CHR ''1'' CHR ''2'', Digit],
                  [Exactly CHR ''0'', Range CHR ''1'' CHR ''9''],
                  [Range CHR ''1'' CHR ''9''],
                  [Exactly CHR '' '', Range CHR ''1'' CHR ''9'']]"

definition dir_H :: token where
  "dir_H = Group [[Exactly CHR ''2'', Range CHR ''0'' CHR ''3''],
                  [Range CHR ''0'' CHR ''1'', Digit],
                  [Digit]]"

definition dir_M :: token where
  "dir_M = Group [[Range CHR ''0'' CHR ''5'', Digit], [Digit]]"

definition dir_S :: token where
  "dir_S = Group [[Exactly CHR ''6'', Range CHR ''0'' CHR ''1''],
                  [Range CHR ''0'' CHR ''5'', Digit],
                  [Digit]]"

definition dir_f :: token where
  "dir_f = Group (map (\<lambda>n. replicate n (Range CHR ''0'' CHR ''9'')) [6, 5, 4, 3, 2, 1])"

text \<open>The three formats of \<^verbatim>\<open>date_formats\<close>, in the order the program lists them.\<close>

definition fmt_date :: "token list" where
  "fmt_date = [dir_Y, Lit CHR ''-'', dir_m, Lit CHR ''-'', dir_d]"

definition fmt_seconds :: "token list" where
  "fmt_seconds = fmt_date @ [Spaces, dir_H, Lit CHR '':'', dir_M, Lit CHR '':'', dir_S]"

definition fmt_micro :: "token list" where
  "fmt_micro = fmt_seconds @ [Lit CHR ''.'', dir_f]"

definition date_formats :: "token list list" where
  "date_formats = [fmt_micro, fmt_seconds, fmt_date]"

text \<open>
  The constructors accept years 1 to 9999, a day that exists in its month and seconds
  up to 59 (the alternation of \<^verbatim>\<open>%S\<close> lets 60 and 61 through).
\<close>

definition make_datetime :: "int list \<Rightarrow> exn + datetime" where
  "make_datetime v =
     (case v of
        [y, m, d, hh, mm, ss, us] \<Rightarrow>
          if 1 \<le> y \<and> y \<le> 9999 \<and> 1 \<le> m \<and> m \<le> 12 \<and> 1 \<le> d \<and> d \<le> days_in_month y m
             \<and> 0 \<le> hh \<and> hh \<le> 23 \<and> 0 \<le> mm \<and> mm \<le> 59 \<and> 0 \<le> ss \<and> ss \<le> 59
             \<and> 0 \<le> us \<and> us \<le> 999999
          then Inr \<lparr>year = y, month = m, day = d, hour = hh, minute = mm, second = ss,
                    microsecond = us\<rparr>
          else Inl ValueError
      | _ \<Rightarrow> Inl ValueError)"

text \<open>
  Captured groups in format order; the time fields default to 0 and the fraction is
  padded with zeros on the right to six digits.
\<close>

definition field_values :: "string list \<Rightarrow> int list" where
  "field_values fs =
     (let date_part = map int_of_digits (take 6 fs);
          time_pad = replicate (6 - length date_part) 0;
          frac = (case drop 6 fs of
                    [] \<Rightarrow> 0
                  | f # _ \<Rightarrow> int_of_digits (f @ replicate (6 - length f) CHR ''0''))
      in date_part @ time_pad @ [frac])"

definition strptime :: "string \<Rightarrow> token list \<Rightarrow> exn + datetime" where
  "strptime s fmt =
     (case rx fmt s of
        None \<Rightarrow> Inl ValueError
      | Some (fs, rest) \<Rightarrow>
          if rest \<noteq> [] then Inl ValueError else make_datetime (field_values fs))"

section \<open>Field normalisation (both scripts)\<close>

text \<open>
  \<open>parse_date\<close> is the same in \<^verbatim>\<open>initial_load.py\<close> and \<^verbatim>\<open>update_data.py\<close>. A falsy
  argument gives \<open>None\<close>; a truthy one that is not a string makes \<^verbatim>\<open>strptime\<close> raise
  \<^verbatim>\<open>TypeError\<close>, which the loop does not catch.
\<close>

fun try_formats :: "string \<Rightarrow> token list list \<Rightarrow> exn + datetime option" where
  "try_formats s [] = Inr None"
| "try_formats s (f # fs) =
     (case strptime s f of
        Inr d \<Rightarrow> Inr (Some d)
      | Inl e \<Rightarrow> if e = ValueError then try_formats s fs else Inl e)"

definition parse_date :: "pyval \<Rightarrow> exn + datetime option" where
  "parse_date date_str =
     (if \<not> truthy date_str then Inr None
      else (case date_str of
              PStr s \<Rightarrow> try_formats s date_formats
            | _ \<Rightarrow> Inl TypeError))"

text \<open>\<^verbatim>\<open>initial_load.clean_sector\<close>: the sentinels are compared before trimming.\<close>

definition initial_load_clean_sector :: "pyval \<Rightarrow> exn + string" where
  "initial_load_clean_sector sector =
     (if \<not> truthy sector then Inr ''Other''
      else (case sector of
              PStr s \<Rightarrow>
                if lower s \<in> set [''not found'', ''unknown''] then Inr ''Other''
                else Inr (strip s)
            | _ \<Rightarrow> Inl AttributeError))"

text \<open>\<^verbatim>\<open>update_data.clean_sector\<close>: trims first and knows one sentinel only.\<close>

definition update_data_clean_sector :: "pyval \<Rightarrow> exn + string" where
  "update_data_clean_sector sector =
     (if \<not> truthy sector then Inr ''Other''
      else (case sector of
              PStr s \<Rightarrow>
                if strip s = '''' \<or> lower (strip s) = ''not found'' then Inr ''Other''
                else Inr (strip s)
            | _ \<Rightarrow> Inl AttributeError))"

text \<open>\<^verbatim>\<open>initial_load.extract_month\<close> returns \<^verbatim>\<open>date.month\<close>, an int.\<close>

definition initial_load_extract_month :: "datetime option \<Rightarrow> pyval" where
  "initial_load_extract_month date =
     (case date of None \<Rightarrow> PNone | Some d \<Rightarrow> PInt (month d))"

text \<open>\<^verbatim>\<open>update_data.extract_month\<close> returns \<^verbatim>\<open>strftime("%m")\<close>, two digits as text.\<close>

definition strftime_m :: "datetime \<Rightarrow> string" where
  "strftime_m d = [digit_char (month d div 10), digit_char (month d)]"

definition update_data_extract_month :: "datetime option \<Rightarrow> pyval" where
  "update_data_extract_month date_obj =
     (case date_obj of None \<Rightarrow> PNone | Some d \<Rightarrow> PStr (strftime_m d))"

text \<open>\<^verbatim>\<open>item.get(key, default).strip()\<close>: only a string has \<^verbatim>\<open>strip\<close>.\<close>

definition get_stripped :: "(string \<times> pyval) list \<Rightarrow> string \<Rightarrow> string \<Rightarrow> exn + string" where
  "get_stripped item k dflt =
     (case dict_get item k (PStr dflt) of
        PStr s \<Rightarrow> Inr (strip s)
      | _ \<Rightarrow> Inl AttributeError)"

section \<open>Processed items and the data frame\<close>

text \<open>One dict of \<^verbatim>\<open>processed_data\<close>, later one line of the data frame and of the table.\<close>

record row =
  sector :: string
  country :: string
  post_title :: string
  group_name :: string
  discovered_date :: "datetime option"
  attack_date :: "datetime option"
  row_month :: pyval

text \<open>The dict display of \<^verbatim>\<open>initial_load.py\<close>, its entries evaluated top to bottom.\<close>

definition initial_load_processed_item ::
  "(string \<times> pyval) list \<Rightarrow> datetime \<Rightarrow> datetime option \<Rightarrow> exn + row" where
  "initial_load_processed_item item dd ad =
     (case initial_load_clean_sector (dict_get item ''activity'' PNone) of
        Inl e \<Rightarrow> Inl e
      | Inr sec \<Rightarrow>
     (case get_stripped item ''country'' '''' of
        Inl e \<Rightarrow> Inl e
      | Inr c \<Rightarrow>
     (case get_stripped item ''post_title'' '''' of
        Inl e \<Rightarrow> Inl e
      | Inr t \<Rightarrow>
     (case get_stripped item ''group_name'' ''Other'' of
        Inl e \<Rightarrow> Inl e
      | Inr g \<Rightarrow>
          Inr \<lparr>sector = sec, country = c, post_title = t,
               group_name = (if g = '''' then ''Other'' else g),
               discovered_date = Some dd, attack_date = ad,
               row_month = initial_load_extract_month (Some dd)\<rparr>))))"

text \<open>The same display in \<^verbatim>\<open>update_data.py\<close>, with that script's helpers.\<close>

definition update_data_processed_item ::
  "(string \<times> pyval) list \<Rightarrow> datetime \<Rightarrow> datetime option \<Rightarrow> exn + row" where
  "update_data_processed_item item dd ad =
     (case update_data_clean_sector (dict_get item ''activity'' PNone) of
        Inl e \<Rightarrow> Inl e
      | Inr sec \<Rightarrow>
     (case get_stripped item ''country'' '''' of
        Inl e \<Rightarrow> Inl e
      | Inr c \<Rightarrow>
     (case get_stripped item ''post_title'' '''' of
        Inl e \<Rightarrow> Inl e
      | Inr t \<Rightarrow>
     (case get_stripped item ''group_name'' ''Other'' of
        Inl e \<Rightarrow> Inl e
      | Inr g \<Rightarrow>
          Inr \<lparr>sector = sec, country = c, post_title = t,
               group_name = (if g = '''' then ''Other'' else g),
               discovered_date = Some dd, attack_date = ad,
               row_month = update_data_extract_month (Some dd)\<rparr>))))"

text \<open>
  The body of the \<^verbatim>\<open>for item in ...\<close> loop of each script: \<open>Inr None\<close> when the
  item is skipped, \<open>Inr (Some r)\<close> when \<open>r\<close> is appended, \<open>Inl e\<close> when \<open>e\<close> is raised.
\<close>

definition initial_load_body :: "int \<Rightarrow> pyval \<Rightarrow> exn + row option" where
  "initial_load_body y item =
     (case item of
        PDict d \<Rightarrow>
          (case parse_date (dict_get d ''discovered'' (PStr '''')) of
             Inl e \<Rightarrow> Inl e
           | Inr discovered \<Rightarrow>
          (case parse_date (dict_get d ''published'' (PStr '''')) of
             Inl e \<Rightarrow> Inl e
           | Inr attack \<Rightarrow>
          (case discovered of
             None \<Rightarrow> Inr None
           | Some dd \<Rightarrow>
               if year dd = y
               then (case initial_load_processed_item d dd attack of
                       Inl e \<Rightarrow> Inl e
                     | Inr r \<Rightarrow> Inr (Some r))
               else Inr None)))
      | _ \<Rightarrow> Inr None)"

definition update_data_body :: "datetime option \<Rightarrow> pyval \<Rightarrow> exn + row option" where
  "update_data_body latest_date item =
     (case item of
        PDict d \<Rightarrow>
          (case parse_date (dict_get d ''discovered'' (PStr '''')) of
             Inl e \<Rightarrow> Inl e
           | Inr discovered \<Rightarrow>
          (case parse_date (dict_get d ''published'' (PStr '''')) of
             Inl e \<Rightarrow> Inl e
           | Inr attack \<Rightarrow>
          (case discovered of
             None \<Rightarrow> Inr None
           | Some dd \<Rightarrow>
               if year dd = 2025 \<and>
                  (case latest_date of None \<Rightarrow> True | Some l \<Rightarrow> dt_less l dd)
               then (case update_data_processed_item d dd attack of
                       Inl e \<Rightarrow> Inl e
                     | Inr r \<Rightarrow> Inr (Some r))
               else Inr None)))
      | _ \<Rightarrow> Inr None)"

text \<open>The loop itself: \<open>acc\<close> is \<^verbatim>\<open>processed_data\<close>; an exception leaves the loop.\<close>

fun for_items :: "(pyval \<Rightarrow> exn + row option) \<Rightarrow> pyval list \<Rightarrow> row list \<Rightarrow> exn + row list" where
  "for_items body [] acc = Inr acc"
| "for_items body (item # items) acc =
     (case body item of
        Inl e \<Rightarrow> Inl e
      | Inr None \<Rightarrow> for_items body items acc
      | Inr (Some r) \<Rightarrow> for_items body items (acc @ [r]))"

text \<open>
  \<^verbatim>\<open>Series.replace(list, value)\<close> on a column of strings: the entries \<^verbatim>\<open>None\<close> and
  \<^verbatim>\<open>float('nan')\<close> of the lists never equal a string, so only the strings are listed.
\<close>

definition replace_values :: "string list \<Rightarrow> string \<Rightarrow> string \<Rightarrow> string" where
  "replace_values to_replace v x = (if x \<in> set to_replace then v else x)"

definition clean_frame :: "row list \<Rightarrow> row list" where
  "clean_frame processed_data =
     map (\<lambda>r. r\<lparr>sector := replace_values ['''', ''nan'', ''Not Found''] ''Other'' (sector r),
               group_name := replace_values ['''', ''nan''] ''Other'' (group_name r),
               country := replace_values [''nan''] '''' (country r)\<rparr>)
         (filter (\<lambda>r. discovered_date r \<noteq> None) processed_data)"

section \<open>The store, the snapshot directories and the log\<close>

datatype level = INFO | WARNING | ERROR

datatype snapshot_kind = NewRecords | CurrentState

datatype message =
    TruncateDone int
  | TruncateError int
  | FetchError
  | NoDataForYear int
  | NothingProcessed int
  | RowsSaved nat
  | Statistics nat nat nat
  | SaveError
  | ConnectError
  | LatestDateError
  | LatestDate "datetime option"
  | NoNewData
  | SnapshotSaved snapshot_kind
  | OldFileDeleted

text \<open>
  \<open>tables y\<close> is the table \<^verbatim>\<open>ransomware_data_<y>\<close>; a snapshot directory is the list
  of its files, newest first, a file being the lines written to it.
\<close>

record world =
  tables :: "int \<Rightarrow> row list"
  new_records :: "row list list"
  current_state :: "row list list"
  log :: "(level \<times> message) list"

definition logger :: "level \<Rightarrow> message \<Rightarrow> world \<Rightarrow> world" where
  "logger lv msg w = w\<lparr>log := log w @ [(lv, msg)]\<rparr>"

text \<open>
  What the surroundings do in one run is an input: whether each database step can
  connect and execute, and what the feed answers. The answer of the feed is either a
  \<^verbatim>\<open>RequestException\<close> (after the retries) or a decoded body. A statement that fails
  leaves its table as it was (the transaction is rolled back). Failures of the file
  system and a body that is not JSON are left out, and the timestamps of the table are
  naive ones, as those the parser returns.
\<close>

datatype db_step = DbOk | ConnectFails | StatementFails

record faults =
  truncate_step :: db_step
  latest_date_step :: db_step
  insert_step :: db_step
  stats_step :: db_step
  export_fails :: bool

datatype response = RequestFailed | Body pyval

text \<open>The aggregate query logged after a write.\<close>

definition statistics :: "row list \<Rightarrow> message" where
  "statistics rows =
     Statistics (length rows)
       (length (remdups (map group_name rows)))
       (length (remdups (filter (\<lambda>c. c \<noteq> '''') (map country rows))))"

section \<open>The backfill script \<^verbatim>\<open>initial_load.py\<close>\<close>

definition clear_existing_data :: "faults \<Rightarrow> int \<Rightarrow> world \<Rightarrow> world \<times> exn option" where
  "clear_existing_data f y w =
     (if truncate_step f = DbOk
      then (logger INFO (TruncateDone y) (w\<lparr>tables := (tables w)(y := [])\<rparr>), None)
      else (logger ERROR (TruncateError y) w, Some DatabaseError))"

definition fetch_data :: "response \<Rightarrow> world \<Rightarrow> world \<times> pyval" where
  "fetch_data resp w =
     (case resp of
        RequestFailed \<Rightarrow> (logger ERROR FetchError w, PList [])
      | Body j \<Rightarrow> (w, j))"

text \<open>The \<^verbatim>\<open>try\<close> block at the end of \<^verbatim>\<open>process_and_save_data_by_year\<close>.\<close>

definition initial_load_write :: "faults \<Rightarrow> int \<Rightarrow> row list \<Rightarrow> world \<Rightarrow> world \<times> exn option" where
  "initial_load_write f y df w =
     (if insert_step f \<noteq> DbOk then (logger ERROR SaveError w, Some DatabaseError)
      else
        (let w1 = logger INFO (RowsSaved (length df))
                    (w\<lparr>tables := (tables w)(y := tables w y @ df)\<rparr>)
         in if stats_step f \<noteq> DbOk then (logger ERROR SaveError w1, Some DatabaseError)
            else (logger INFO (statistics (tables w1 y)) w1, None)))"

definition process_and_save_data_by_year ::
  "faults \<Rightarrow> response \<Rightarrow> int \<Rightarrow> world \<Rightarrow> world \<times> exn option" where
  "process_and_save_data_by_year f resp y w =
     (case clear_existing_data f y w of
        (w1, Some e) \<Rightarrow> (w1, Some e)
      | (w1, None) \<Rightarrow>
          (case fetch_data resp w1 of
             (w2, yearly_data) \<Rightarrow>
               if \<not> truthy yearly_data then (logger ERROR (NoDataForYear y) w2, None)
               else
                 (case py_iter yearly_data of
                    Inl e \<Rightarrow> (w2, Some e)
                  | Inr items \<Rightarrow>
                      (case for_items (initial_load_body y) items [] of
                         Inl e \<Rightarrow> (w2, Some e)
                       | Inr processed_data \<Rightarrow>
                           if processed_data = []
                           then (logger WARNING (NothingProcessed y) w2, None)
                           else initial_load_write f y (clean_frame processed_data) w2))))"

section \<open>The delta script \<^verbatim>\<open>update_data.py\<close>\<close>

text \<open>\<^verbatim>\<open>update_data.get_db_connection\<close> logs a failed connection and raises it again.\<close>

definition get_db_connection :: "db_step \<Rightarrow> world \<Rightarrow> world \<times> exn option" where
  "get_db_connection step w =
     (if step = ConnectFails then (logger ERROR ConnectError w, Some DatabaseError)
      else (w, None))"

text \<open>\<^verbatim>\<open>SELECT MAX(discovered_date)\<close>: the greatest value that is not null, if any.\<close>

definition later_of :: "datetime option \<Rightarrow> row \<Rightarrow> datetime option" where
  "later_of best r =
     (case discovered_date r of
        None \<Rightarrow> best
      | Some d \<Rightarrow>
          (case best of
             None \<Rightarrow> Some d
           | Some b \<Rightarrow> if dt_less b d then Some d else Some b))"

definition max_discovered_date :: "row list \<Rightarrow> datetime option" where
  "max_discovered_date rows = foldl later_of None rows"

definition get_latest_record_date :: "faults \<Rightarrow> world \<Rightarrow> world \<times> datetime option" where
  "get_latest_record_date f w =
     (case get_db_connection (latest_date_step f) w of
        (w1, Some e) \<Rightarrow> (logger ERROR LatestDateError w1, None)
      | (w1, None) \<Rightarrow>
          if latest_date_step f = StatementFails then (logger ERROR LatestDateError w1, None)
          else (w1, max_discovered_date (tables w1 2025)))"

definition fetch_delta_data :: "response \<Rightarrow> world \<Rightarrow> world \<times> pyval" where
  "fetch_delta_data resp w =
     (case resp of
        RequestFailed \<Rightarrow> (logger ERROR FetchError w, PList [])
      | Body j \<Rightarrow> (w, j))"

text \<open>
  \<^verbatim>\<open>cleanup_old_files\<close> keeps the five newest files and logs each one it deletes
  (the paths of the two snapshot directories are taken not to contain \<^verbatim>\<open>logs\<close>).
\<close>

definition cleanup_old_files :: "row list list \<Rightarrow> row list list \<times> nat" where
  "cleanup_old_files files = (take 5 files, length (drop 5 files))"

definition log_deleted :: "nat \<Rightarrow> world \<Rightarrow> world" where
  "log_deleted n w = w\<lparr>log := log w @ replicate n (INFO, OldFileDeleted)\<rparr>"

definition save_to_csv :: "row list \<Rightarrow> snapshot_kind \<Rightarrow> world \<Rightarrow> world" where
  "save_to_csv df data_type w =
     (let w1 = (if data_type = NewRecords then w\<lparr>new_records := df # new_records w\<rparr>
                else w\<lparr>current_state := df # current_state w\<rparr>);
          w2 = logger INFO (SnapshotSaved data_type) w1;
          w3 = log_deleted (snd (cleanup_old_files (new_records w2)))
                 (w2\<lparr>new_records := fst (cleanup_old_files (new_records w2))\<rparr>);
          w4 = log_deleted (snd (cleanup_old_files (current_state w3)))
                 (w3\<lparr>current_state := fst (cleanup_old_files (current_state w3))\<rparr>)
      in w4)"

text \<open>\<^verbatim>\<open>ORDER BY discovered_date DESC\<close>, nulls first as PostgreSQL puts them.\<close>

definition sorts_before :: "row \<Rightarrow> row \<Rightarrow> bool" where
  "sorts_before a b =
     (case discovered_date a of
        None \<Rightarrow> True
      | Some x \<Rightarrow> (case discovered_date b of None \<Rightarrow> False | Some z \<Rightarrow> \<not> dt_less x z))"

fun insert_desc :: "row \<Rightarrow> row list \<Rightarrow> row list" where
  "insert_desc r [] = [r]"
| "insert_desc r (x # xs) = (if sorts_before r x then r # x # xs else x # insert_desc r xs)"

definition order_by_discovered_desc :: "row list \<Rightarrow> row list" where
  "order_by_discovered_desc rows = foldr insert_desc rows []"

text \<open>The \<^verbatim>\<open>try\<close> block at the end of \<^verbatim>\<open>process_and_save_delta\<close>.\<close>

definition update_data_write :: "faults \<Rightarrow> row list \<Rightarrow> world \<Rightarrow> world \<times> exn option" where
  "update_data_write f df w =
     (let w1 = save_to_csv df NewRecords w
      in if insert_step f \<noteq> DbOk then (logger ERROR SaveError w1, Some DatabaseError)
         else
           (let w2 = logger INFO (RowsSaved (length df))
                       (w1\<lparr>tables := (tables w1)(2025 := tables w1 2025 @ df)\<rparr>)
            in (case get_db_connection (stats_step f) w2 of
                  (w3, Some e) \<Rightarrow> (logger ERROR SaveError w3, Some e)
                | (w3, None) \<Rightarrow>
                    if stats_step f = StatementFails
                    then (logger ERROR SaveError w3, Some DatabaseError)
                    else
                      (let w4 = logger INFO (statistics (tables w3 2025)) w3
                       in if export_fails f then (logger ERROR SaveError w4, Some DatabaseError)
                          else (save_to_csv (order_by_discovered_desc (tables w4 2025))
                                  CurrentState w4, None)))))"

definition process_and_save_delta :: "faults \<Rightarrow> response \<Rightarrow> world \<Rightarrow> world \<times> exn option" where
  "process_and_save_delta f resp w =
     (case get_latest_record_date f w of
        (w1, latest_date) \<Rightarrow>
          (case fetch_delta_data resp (logger INFO (LatestDate latest_date) w1) of
             (w2, new_data) \<Rightarrow>
               (case py_iter new_data of
                  Inl e \<Rightarrow> (w2, Some e)
                | Inr items \<Rightarrow>
                    (case for_items (update_data_body latest_date) items [] of
                       Inl e \<Rightarrow> (w2, Some e)
                     | Inr processed_data \<Rightarrow>
                         if processed_data = [] then (logger INFO NoNewData w2, None)
                         else update_data_write f (clean_frame processed_data) w2))))"

section \<open>Concrete surroundings for the examples\<close>

definition no_faults :: faults where
  "no_faults = \<lparr>truncate_step = DbOk, latest_date_step = DbOk, insert_step = DbOk,
                stats_step = DbOk, export_fails = False\<rparr>"

text \<open>The connection for the query of the latest date fails; everything else works.\<close>

definition watermark_fault :: faults where
  "watermark_fault = \<lparr>truncate_step = DbOk, latest_date_step = ConnectFails,
                      insert_step = DbOk, stats_step = DbOk, export_fails = False\<rparr>"

definition empty_world :: world where
  "empty_world = \<lparr>tables = (\<lambda>y. []), new_records = [], current_state = [], log = []\<rparr>"

text \<open>A line of 2 March 2025 and a store whose table of 2025 holds just that line.\<close>

definition sample_row :: row where
  "sample_row = \<lparr>sector = ''Other'', country = '''', post_title = '''', group_name = ''Other'',
       discovered_date = Some \<lparr>year = 2025, month = 3, day = 2, hour = 0, minute = 0,
                                second = 0, microsecond = 0\<rparr>,
       attack_date = None, row_month = PInt 3\<rparr>"

definition stocked_world :: world where
  "stocked_world = \<lparr>tables = (\<lambda>y. if y = 2025 then [sample_row] else []), new_records = [],
                     current_state = [], log = []\<rparr>"

section \<open>Notions used in the statements\<close>

text \<open>The parsed \<^verbatim>\<open>discovered\<close> value of a fetched item, when it is a dict and has one.\<close>

definition discovered_of :: "pyval \<Rightarrow> datetime option" where
  "discovered_of item =
     (case item of
        PDict d \<Rightarrow>
          (case parse_date (dict_get d ''discovered'' (PStr '''')) of
             Inr (Some dd) \<Rightarrow> Some dd
           | _ \<Rightarrow> None)
      | _ \<Rightarrow> None)"

text \<open>A line belongs to the partition of year \<open>y\<close>.\<close>

definition in_partition :: "int \<Rightarrow> row \<Rightarrow> bool" where
  "in_partition y r = (case discovered_date r of None \<Rightarrow> False | Some d \<Rightarrow> year d = y)"

section \<open>Strings and dates: auxiliary facts\<close>

lemma strptime_only_ValueError: "strptime s fmt = Inl e \<Longrightarrow> e = ValueError"
  by (auto simp: strptime_def make_datetime_def
           split: option.splits prod.splits if_splits list.splits)

lemma try_formats_three:
  "try_formats s [f1, f2, f3] =
     Inr (case strptime s f1 of Inr d \<Rightarrow> Some d | Inl _ \<Rightarrow>
         (case strptime s f2 of Inr d \<Rightarrow> Some d | Inl _ \<Rightarrow>
         (case strptime s f3 of Inr d \<Rightarrow> Some d | Inl _ \<Rightarrow> None)))"
  by (auto split: sum.splits dest: strptime_only_ValueError)

lemma strptime_month_range:
  "strptime s fmt = Inr d \<Longrightarrow> 1 \<le> month d \<and> month d \<le> 12"
  by (auto simp: strptime_def make_datetime_def
           split: option.splits prod.splits if_splits list.splits)

lemma try_formats_month_range:
  "try_formats s fs = Inr (Some d) \<Longrightarrow> 1 \<le> month d \<and> month d \<le> 12"
  by (induction fs) (auto split: sum.splits if_splits dest: strptime_month_range)

lemma parse_date_month_range:
  "parse_date v = Inr (Some d) \<Longrightarrow> 1 \<le> month d \<and> month d \<le> 12"
  by (auto simp: parse_date_def split: if_splits pyval.splits dest: try_formats_month_range)

lemma strip_changes:
  assumes "strip s \<noteq> s"
  shows "s \<noteq> [] \<and> (is_space (hd s) \<or> is_space (last s))"
proof (rule ccontr)
  assume "\<not> ?thesis"
  then consider "s = []" | "s \<noteq> []" "\<not> is_space (hd s)" "\<not> is_space (last s)"
    by blast
  then have "strip s = s"
  proof cases
    case 1
    then show ?thesis by (simp add: strip_def)
  next
    case 2
    have front: "dropWhile is_space s = s"
      using 2 by (simp add: dropWhile_eq_self_iff)
    have "hd (rev s) = last s"
      using 2 by (simp add: hd_rev)
    then have rear: "dropWhile is_space (rev s) = rev s"
      using 2 by (simp add: dropWhile_eq_self_iff)
    show ?thesis by (simp add: strip_def front rear)
  qed
  with assms show False by simp
qed

lemma space_not_upper: "is_space c \<Longrightarrow> c \<notin> set ''ABCDEFGHIJKLMNOPQRSTUVWXYZ''"
  by (auto simp: is_space_def)

lemma map_of_zip_absent:
  "c \<notin> set ks \<Longrightarrow> length ks = length vs \<Longrightarrow> map_of (zip ks vs) c = None"
  by (simp add: map_of_zip_is_None)

lemma lower_char_space: "is_space c \<Longrightarrow> lower_char c = c"
  unfolding lower_char_def
  by (subst map_of_zip_absent) (use space_not_upper in \<open>simp_all del: set_simps\<close>)

lemma lower_ends:
  assumes "s \<noteq> []" "is_space (hd s) \<or> is_space (last s)"
  shows "lower s \<noteq> [] \<and> (is_space (hd (lower s)) \<or> is_space (last (lower s)))"
  using assms by (auto simp: lower_def hd_map last_map lower_char_space)

lemma lex_less_irrefl: "\<not> lex_less xs xs"
  by (induction xs) auto

lemma dt_less_irrefl: "\<not> dt_less d d"
  by (simp add: dt_less_def lex_less_irrefl)

section \<open>The loop over the fetched items\<close>

lemma for_items_acc:
  "for_items body items acc =
     (case for_items body items [] of Inl e \<Rightarrow> Inl e | Inr rs \<Rightarrow> Inr (acc @ rs))"
proof (induction items arbitrary: acc)
  case Nil
  then show ?case by simp
next
  case (Cons item items)
  show ?case
  proof (cases "body item")
    case (Inl e)
    then show ?thesis by simp
  next
    case (Inr ro)
    show ?thesis
    proof (cases ro)
      case None
      with Inr Cons.IH[of acc] show ?thesis by simp
    next
      case (Some r)
      with Inr Cons.IH[of "acc @ [r]"] Cons.IH[of "[r]"] show ?thesis
        by (simp split: sum.splits)
    qed
  qed
qed

lemma for_items_Cons:
  "for_items body (item # items) [] =
     (case body item of
        Inl e \<Rightarrow> Inl e
      | Inr ro \<Rightarrow>
          (case for_items body items [] of
             Inl e \<Rightarrow> Inl e
           | Inr rs \<Rightarrow> Inr ((case ro of None \<Rightarrow> [] | Some r \<Rightarrow> [r]) @ rs)))"
proof (cases "body item")
  case (Inl e)
  then show ?thesis by simp
next
  case (Inr ro)
  show ?thesis
  proof (cases ro)
    case None
    with Inr show ?thesis by (simp split: sum.splits)
  next
    case (Some r)
    with Inr for_items_acc[of body items "[r]"] show ?thesis by (simp split: sum.splits)
  qed
qed

text \<open>Every line the loop collects comes from the body and has what the body ensures.\<close>

lemma for_items_all:
  assumes "for_items body items [] = Inr rs"
    and "\<And>item r. body item = Inr (Some r) \<Longrightarrow> P r"
  shows "list_all P rs"
  using assms(1)
proof (induction items arbitrary: rs)
  case Nil
  then show ?case by simp
next
  case (Cons item items)
  from Cons.prems obtain ro rest where
    b: "body item = Inr ro" and
    rest: "for_items body items [] = Inr rest" and
    rs: "rs = (case ro of None \<Rightarrow> [] | Some r \<Rightarrow> [r]) @ rest"
    by (auto simp: for_items_Cons simp del: for_items.simps split: sum.splits)
  from Cons.IH[OF rest] have "list_all P rest" .
  with b rs assms(2) show ?case by (cases ro) auto
qed

lemma initial_load_item_date:
  "initial_load_processed_item d dd ad = Inr r \<Longrightarrow> discovered_date r = Some dd"
  by (auto simp: initial_load_processed_item_def split: sum.splits)

lemma update_data_item_date:
  "update_data_processed_item d dd ad = Inr r \<Longrightarrow> discovered_date r = Some dd"
  by (auto simp: update_data_processed_item_def split: sum.splits)

lemma initial_load_body_year:
  "initial_load_body y item = Inr (Some r) \<Longrightarrow> in_partition y r"
  by (auto simp: initial_load_body_def in_partition_def
           split: pyval.splits sum.splits option.splits if_splits
           dest: initial_load_item_date)

lemma update_data_body_Some:
  assumes "update_data_body wm item = Inr (Some r)"
  shows "\<exists>dd. discovered_of item = Some dd \<and> discovered_date r = Some dd \<and> year dd = 2025 \<and>
              (case wm of None \<Rightarrow> True | Some w \<Rightarrow> dt_less w dd)"
  using assms
  by (auto simp: update_data_body_def discovered_of_def
           split: pyval.splits sum.splits option.splits if_splits
           dest: update_data_item_date)

lemma update_data_body_year:
  "update_data_body wm item = Inr (Some r) \<Longrightarrow> in_partition 2025 r"
  by (auto simp: in_partition_def dest: update_data_body_Some)

lemma update_data_body_None:
  assumes "update_data_body wm item = Inr None"
  shows "case discovered_of item of None \<Rightarrow> True
         | Some dd \<Rightarrow> \<not> (year dd = 2025 \<and> (case wm of None \<Rightarrow> True | Some w \<Rightarrow> dt_less w dd))"
  using assms
  by (auto simp: update_data_body_def discovered_of_def
           split: pyval.splits sum.splits option.splits if_splits)

lemma delta_dates:
  "for_items (update_data_body wm) items [] = Inr kept \<Longrightarrow>
   map discovered_date kept =
     map Some (filter (\<lambda>d. year d = 2025 \<and> (case wm of None \<Rightarrow> True | Some w \<Rightarrow> dt_less w d))
                      (List.map_filter discovered_of items))"
proof (induction items arbitrary: kept)
  case Nil
  then show ?case by (simp add: List.map_filter_simps)
next
  case (Cons item items)
  from Cons.prems obtain ro rs where
    b: "update_data_body wm item = Inr ro" and
    rs: "for_items (update_data_body wm) items [] = Inr rs" and
    k: "kept = (case ro of None \<Rightarrow> [] | Some r \<Rightarrow> [r]) @ rs"
    by (auto simp: for_items_Cons simp del: for_items.simps split: sum.splits)
  note ih = Cons.IH[OF rs]
  show ?case
  proof (cases ro)
    case None
    with b have "case discovered_of item of None \<Rightarrow> True
         | Some dd \<Rightarrow> \<not> (year dd = 2025 \<and> (case wm of None \<Rightarrow> True | Some w \<Rightarrow> dt_less w dd))"
      using update_data_body_None by blast
    with None k ih show ?thesis
      by (auto simp: List.map_filter_simps split: option.splits)
  next
    case (Some r)
    with b obtain dd where "discovered_of item = Some dd" "discovered_date r = Some dd"
      "year dd = 2025" "(case wm of None \<Rightarrow> True | Some w \<Rightarrow> dt_less w dd)"
      using update_data_body_Some by blast
    with Some k ih show ?thesis
      by (auto simp: List.map_filter_simps split: option.splits)
  qed
qed

text \<open>With a watermark the body keeps what it keeps without one, if that is newer.\<close>

lemma update_data_body_watermark:
  assumes "update_data_body None item = Inr ro"
  shows "update_data_body (Some w) item =
           Inr (case ro of
                  None \<Rightarrow> None
                | Some r \<Rightarrow>
                    (case discovered_date r of
                       None \<Rightarrow> None
                     | Some d \<Rightarrow> if dt_less w d then Some r else None))"
  using assms
  by (auto simp: update_data_body_def
           split: pyval.splits sum.splits option.splits if_splits
           dest: update_data_item_date)

lemma delta_rows:
  "for_items (update_data_body None) items [] = Inr valid \<Longrightarrow>
   for_items (update_data_body (Some w)) items [] =
     Inr (filter (\<lambda>r. case discovered_date r of None \<Rightarrow> False | Some d \<Rightarrow> dt_less w d) valid)"
proof (induction items arbitrary: valid)
  case Nil
  then show ?case by simp
next
  case (Cons item items)
  from Cons.prems obtain ro rs where
    b: "update_data_body None item = Inr ro" and
    rs: "for_items (update_data_body None) items [] = Inr rs" and
    v: "valid = (case ro of None \<Rightarrow> [] | Some r \<Rightarrow> [r]) @ rs"
    by (auto simp: for_items_Cons simp del: for_items.simps split: sum.splits)
  note ih = Cons.IH[OF rs]
  note bw = update_data_body_watermark[OF b, of w]
  show ?case
    unfolding for_items_Cons bw ih v
    by (simp split: option.splits)
qed

text \<open>The month column: an int in the backfill script, two digits of text in the delta script.\<close>

lemma initial_load_body_month:
  assumes "initial_load_body y item = Inr (Some r)"
  shows "\<exists>d. discovered_date r = Some d \<and> row_month r = PInt (month d) \<and>
             1 \<le> month d \<and> month d \<le> 12"
  using assms
  by (auto simp: initial_load_body_def initial_load_processed_item_def
             initial_load_extract_month_def
           split: pyval.splits sum.splits option.splits if_splits
           dest: parse_date_month_range)

lemma update_data_body_month:
  assumes "update_data_body wm item = Inr (Some r)"
  shows "\<exists>d. discovered_date r = Some d \<and> row_month r = PStr (strftime_m d)"
  using assms
  by (auto simp: update_data_body_def update_data_processed_item_def
             update_data_extract_month_def
           split: pyval.splits sum.splits option.splits if_splits)

lemma get_stripped_null:
  "map_of item k = Some PNone \<Longrightarrow> get_stripped item k dflt = Inl AttributeError"
  by (simp add: get_stripped_def dict_get_def)

section \<open>What a run leaves untouched\<close>

lemma logger_fields [simp]:
  "tables (logger lv msg w) = tables w"
  "new_records (logger lv msg w) = new_records w"
  "current_state (logger lv msg w) = current_state w"
  "log (logger lv msg w) = log w @ [(lv, msg)]"
  by (simp_all add: logger_def)

lemma log_deleted_fields [simp]:
  "tables (log_deleted n w) = tables w"
  "new_records (log_deleted n w) = new_records w"
  "current_state (log_deleted n w) = current_state w"
  by (simp_all add: log_deleted_def)

lemma save_to_csv_tables [simp]: "tables (save_to_csv df k w) = tables w"
  by (simp add: save_to_csv_def Let_def)

lemma get_latest_record_date_frame [simp]:
  "tables (fst (get_latest_record_date f w)) = tables w"
  "new_records (fst (get_latest_record_date f w)) = new_records w"
  "current_state (fst (get_latest_record_date f w)) = current_state w"
  by (simp_all add: get_latest_record_date_def get_db_connection_def)

lemma fetch_delta_data_frame [simp]:
  "tables (fst (fetch_delta_data resp w)) = tables w"
  "new_records (fst (fetch_delta_data resp w)) = new_records w"
  "current_state (fst (fetch_delta_data resp w)) = current_state w"
  by (simp_all add: fetch_delta_data_def split: response.splits)

lemma fetch_data_frame [simp]:
  "tables (fst (fetch_data resp w)) = tables w"
  "new_records (fst (fetch_data resp w)) = new_records w"
  "current_state (fst (fetch_data resp w)) = current_state w"
  by (simp_all add: fetch_data_def split: response.splits)

lemma get_latest_record_date_eq:
  assumes "get_latest_record_date f w = (w1, latest_date)"
  shows "tables w1 = tables w" "new_records w1 = new_records w"
    "current_state w1 = current_state w"
  using get_latest_record_date_frame[of f w] assms by simp_all

lemma fetch_delta_data_eq:
  assumes "fetch_delta_data resp w = (w1, new_data)"
  shows "tables w1 = tables w" "new_records w1 = new_records w"
    "current_state w1 = current_state w"
  using fetch_delta_data_frame[of resp w] assms by simp_all

lemma fetch_data_eq:
  assumes "fetch_data resp w = (w1, yearly_data)"
  shows "tables w1 = tables w" "new_records w1 = new_records w"
    "current_state w1 = current_state w"
  using fetch_data_frame[of resp w] assms by simp_all

lemma update_data_write_tables:
  "tables (fst (update_data_write f df w)) =
     (if insert_step f = DbOk then (tables w)(2025 := tables w 2025 @ df) else tables w)"
  by (simp add: update_data_write_def get_db_connection_def Let_def)

lemma initial_load_write_tables:
  "tables (fst (initial_load_write f y df w)) =
     (if insert_step f = DbOk then (tables w)(y := tables w y @ df) else tables w)"
  by (simp add: initial_load_write_def Let_def)

lemma clean_frame_in_partition:
  "list_all (in_partition y) rs \<Longrightarrow> list_all (in_partition y) (clean_frame rs)"
  by (induction rs) (auto simp: clean_frame_def in_partition_def)

text \<open>The tables after a delta run: the old lines of 2025, then new lines of 2025.\<close>

lemma process_and_save_delta_tables:
  "\<exists>added. list_all (in_partition 2025) added \<and>
     tables (fst (process_and_save_delta f resp w)) =
       (tables w)(2025 := tables w 2025 @ added)"
proof -
  obtain w1 latest_date where g: "get_latest_record_date f w = (w1, latest_date)"
    by (cases "get_latest_record_date f w")
  obtain w2 new_data where
    h: "fetch_delta_data resp (logger INFO (LatestDate latest_date) w1) = (w2, new_data)"
    by (cases "fetch_delta_data resp (logger INFO (LatestDate latest_date) w1)")
  have t2: "tables w2 = tables w"
    using get_latest_record_date_eq(1)[OF g] fetch_delta_data_eq(1)[OF h] by simp
  have unchanged: "\<exists>added. list_all (in_partition 2025) added \<and>
                     t = (tables w)(2025 := tables w 2025 @ added)"
    if "t = tables w" for t
    using that by (intro exI[of _ "[]"]) simp
  show ?thesis
  proof (cases "py_iter new_data")
    case (Inl e)
    with g h t2 have "tables (fst (process_and_save_delta f resp w)) = tables w"
      by (simp add: process_and_save_delta_def)
    then show ?thesis by (rule unchanged)
  next
    case (Inr items)
    show ?thesis
    proof (cases "for_items (update_data_body latest_date) items []")
      case (Inl e)
      with g h t2 Inr have "tables (fst (process_and_save_delta f resp w)) = tables w"
        by (simp add: process_and_save_delta_def)
      then show ?thesis by (rule unchanged)
    next
      case processed: (Inr processed_data)
      have ok: "list_all (in_partition 2025) (clean_frame processed_data)"
        using for_items_all[OF processed, of "in_partition 2025"] update_data_body_year
        by (blast intro: clean_frame_in_partition)
      show ?thesis
      proof (cases "processed_data = []")
        case True
        with g h t2 Inr processed
        have "tables (fst (process_and_save_delta f resp w)) = tables w"
          by (simp add: process_and_save_delta_def)
        then show ?thesis by (rule unchanged)
      next
        case False
        with g h Inr processed
        have "tables (fst (process_and_save_delta f resp w)) =
                tables (fst (update_data_write f (clean_frame processed_data) w2))"
          by (simp add: process_and_save_delta_def)
        also have "\<dots> = (if insert_step f = DbOk
                         then (tables w)(2025 := tables w 2025 @ clean_frame processed_data)
                         else tables w)"
          by (simp add: update_data_write_tables t2)
        finally have after: "tables (fst (process_and_save_delta f resp w)) =
                (if insert_step f = DbOk
                 then (tables w)(2025 := tables w 2025 @ clean_frame processed_data)
                 else tables w)" .
        show ?thesis
        proof (cases "insert_step f = DbOk")
          case True
          with after ok show ?thesis by auto
        next
          case False
          with after have "tables (fst (process_and_save_delta f resp w)) = tables w"
            by simp
          then show ?thesis by (rule unchanged)
        qed
      qed
    qed
  qed
qed

text \<open>
  The tables after a backfill run of year \<open>y\<close>: untouched when the truncate failed,
  otherwise table \<open>y\<close> replaced by lines of year \<open>y\<close>.
\<close>

lemma process_and_save_data_by_year_tables:
  "\<exists>rows. list_all (in_partition y) rows \<and>
      tables (fst (process_and_save_data_by_year f resp y w)) =
        (if truncate_step f = DbOk then (tables w)(y := rows) else tables w)"
proof (cases "truncate_step f = DbOk")
  case False
  then have "tables (fst (process_and_save_data_by_year f resp y w)) = tables w"
    by (simp add: process_and_save_data_by_year_def clear_existing_data_def)
  with False show ?thesis by (intro exI[of _ "[]"]) simp
next
  case True
  define w1 where "w1 = logger INFO (TruncateDone y) (w\<lparr>tables := (tables w)(y := [])\<rparr>)"
  have c: "clear_existing_data f y w = (w1, None)"
    using True by (simp add: clear_existing_data_def w1_def)
  have t1: "tables w1 = (tables w)(y := [])"
    by (simp add: w1_def)
  obtain w2 yearly_data where h: "fetch_data resp w1 = (w2, yearly_data)"
    by (cases "fetch_data resp w1")
  have t2: "tables w2 = (tables w)(y := [])"
    using fetch_data_eq(1)[OF h] t1 by simp
  have emptied: ?thesis if "tables (fst (process_and_save_data_by_year f resp y w)) = tables w2"
    using that t2 True by (intro exI[of _ "[]"]) simp
  show ?thesis
  proof (cases "truthy yearly_data")
    case False
    with c h have "tables (fst (process_and_save_data_by_year f resp y w)) = tables w2"
      by (simp add: process_and_save_data_by_year_def)
    then show ?thesis by (rule emptied)
  next
    case truthy: True
    show ?thesis
    proof (cases "py_iter yearly_data")
      case (Inl e)
      with c h truthy
      have "tables (fst (process_and_save_data_by_year f resp y w)) = tables w2"
        by (simp add: process_and_save_data_by_year_def)
      then show ?thesis by (rule emptied)
    next
      case (Inr items)
      show ?thesis
      proof (cases "for_items (initial_load_body y) items []")
        case (Inl e)
        with c h truthy Inr
        have "tables (fst (process_and_save_data_by_year f resp y w)) = tables w2"
          by (simp add: process_and_save_data_by_year_def)
        then show ?thesis by (rule emptied)
      next
        case processed: (Inr processed_data)
        have ok: "list_all (in_partition y) (clean_frame processed_data)"
          using for_items_all[OF processed, of "in_partition y"] initial_load_body_year
          by (blast intro: clean_frame_in_partition)
        show ?thesis
        proof (cases "processed_data = [] \<or> insert_step f \<noteq> DbOk")
          case True
          with c h truthy Inr processed
          have "tables (fst (process_and_save_data_by_year f resp y w)) = tables w2"
            by (auto simp: process_and_save_data_by_year_def initial_load_write_tables)
          then show ?thesis by (rule emptied)
        next
          case False
          with c h truthy Inr processed
          have "tables (fst (process_and_save_data_by_year f resp y w)) =
                  (tables w)(y := clean_frame processed_data)"
            by (simp add: process_and_save_data_by_year_def initial_load_write_tables t2)
          with ok \<open>truncate_step f = DbOk\<close> show ?thesis by auto
        qed
      qed
    qed
  qed
qed

text \<open>A delta run whose query for the latest date failed works as on an empty table.\<close>

lemma delta_run_with_lost_watermark:
  assumes "latest_date_step f \<noteq> DbOk" "py_iter body = Inr items"
    and "for_items (update_data_body None) items [] = Inr kept" "insert_step f = DbOk"
  shows "tables (fst (process_and_save_delta f (Body body) w)) 2025 =
           tables w 2025 @ clean_frame kept"
proof -
  obtain w1 latest_date where g: "get_latest_record_date f w = (w1, latest_date)"
    by (cases "get_latest_record_date f w")
  have l: "latest_date = None"
    using g assms(1)
    by (cases "latest_date_step f")
       (auto simp: get_latest_record_date_def get_db_connection_def)
  obtain w2 new_data where
    h: "fetch_delta_data (Body body) (logger INFO (LatestDate latest_date) w1) = (w2, new_data)"
    by (cases "fetch_delta_data (Body body) (logger INFO (LatestDate latest_date) w1)")
  have nd: "new_data = body"
    using h by (simp add: fetch_delta_data_def)
  have t2: "tables w2 = tables w"
    using get_latest_record_date_eq(1)[OF g] fetch_delta_data_eq(1)[OF h] by simp
  show ?thesis
  proof (cases "kept = []")
    case True
    with g h l nd assms t2 show ?thesis
      by (simp add: process_and_save_delta_def clean_frame_def)
  next
    case False
    with g h l nd assms t2 show ?thesis
      by (simp add: process_and_save_delta_def update_data_write_tables)
  qed
qed

section \<open>Sector normalisation\<close>

text \<open>
  Claim C10. In the backfill script the sentinel comparison of the sector is made on the
  input before it is trimmed: a string with blanks at either end is never taken for a
  sentinel and comes back trimmed. So \<^verbatim>\<open>activity = " Unknown "\<close> is stored as the
  sector \<^verbatim>\<open>"Unknown"\<close>, not as \<^verbatim>\<open>"Other"\<close>.
\<close>

theorem initial_load_sector_untrimmed:
  "(strip s \<noteq> s \<longrightarrow> initial_load_clean_sector (PStr s) = Inr (strip s)) \<and>
   map sector (tables (fst (process_and_save_data_by_year no_faults
          (Body (PList [PDict [(''activity'', PStr '' Unknown ''),
                               (''discovered'', PStr ''2024-06-15'')]])) 2024 empty_world)) 2024)
     = [''Unknown'']"
proof
  show "strip s \<noteq> s \<longrightarrow> initial_load_clean_sector (PStr s) = Inr (strip s)"
  proof
    assume "strip s \<noteq> s"
    then have s: "s \<noteq> []" "is_space (hd s) \<or> is_space (last s)"
      using strip_changes by blast+
    from lower_ends[OF s] have "lower s \<noteq> ''not found''" "lower s \<noteq> ''unknown''"
      by (auto simp: is_space_def)
    with s show "initial_load_clean_sector (PStr s) = Inr (strip s)"
      by (simp add: initial_load_clean_sector_def)
  qed
  show "map sector (tables (fst (process_and_save_data_by_year no_faults
          (Body (PList [PDict [(''activity'', PStr '' Unknown ''),
                               (''discovered'', PStr ''2024-06-15'')]])) 2024 empty_world)) 2024)
     = [''Unknown'']"
    by code_simp
qed

theorem initial_load_sector_untrimmed_witness:
  "strip '' Unknown '' \<noteq> '' Unknown '' \<and>
   initial_load_clean_sector (PStr '' Unknown '') = Inr ''Unknown''"
proof -
  have h: "strip '' Unknown '' \<noteq> '' Unknown ''" by code_simp
  have v: "strip '' Unknown '' = ''Unknown''" by code_simp
  from initial_load_sector_untrimmed[of "'' Unknown ''"] h v show ?thesis by simp
qed

text \<open>
  What both scripts do agree on: an absent, null or empty \<^verbatim>\<open>activity\<close> and any casing
  of \<^verbatim>\<open>"not found"\<close> give \<^verbatim>\<open>"Other"\<close>; the backfill script does the same for any
  casing of \<^verbatim>\<open>"unknown"\<close>.
\<close>

lemma initial_load_sector_sentinels:
  "initial_load_clean_sector PNone = Inr ''Other''"
  "initial_load_clean_sector (PStr '''') = Inr ''Other''"
  "lower s = ''not found'' \<Longrightarrow> initial_load_clean_sector (PStr s) = Inr ''Other''"
  "lower s = ''unknown'' \<Longrightarrow> initial_load_clean_sector (PStr s) = Inr ''Other''"
  by (simp_all add: initial_load_clean_sector_def)

lemma update_data_sector_sentinels:
  "update_data_clean_sector PNone = Inr ''Other''"
  "update_data_clean_sector (PStr '''') = Inr ''Other''"
  "lower (strip s) = ''not found'' \<Longrightarrow> update_data_clean_sector (PStr s) = Inr ''Other''"
  by (simp_all add: update_data_clean_sector_def)

text \<open>
  Claim C1. An absent, null or empty \<^verbatim>\<open>activity\<close>, or any casing of \<^verbatim>\<open>"not found"\<close>
  or \<^verbatim>\<open>"unknown"\<close>, is to give the sector \<^verbatim>\<open>"Other"\<close> in both scripts. The delta
  script does not: its \<^verbatim>\<open>clean_sector\<close> knows \<^verbatim>\<open>"not found"\<close> only, and the record
  with \<^verbatim>\<open>activity = "unknown"\<close> is stored with the sector \<^verbatim>\<open>"unknown"\<close>, where the
  backfill script gives \<^verbatim>\<open>"Other"\<close> for the same value.
\<close>

theorem update_data_sector_unknown_kept:
  "update_data_clean_sector (PStr ''unknown'') = Inr ''unknown'' \<and>
   initial_load_clean_sector (PStr ''unknown'') = Inr ''Other'' \<and>
   map sector (tables (fst (process_and_save_delta no_faults
          (Body (PList [PDict [(''activity'', PStr ''unknown''),
                               (''discovered'', PStr ''2025-03-02'')]])) empty_world)) 2025)
     = [''unknown'']"
  by code_simp

section \<open>Dates and months\<close>

text \<open>
  Claim C7. Given a string, \<open>parse_date\<close> tries \<^verbatim>\<open>%Y-%m-%d %H:%M:%S.%f\<close>, then
  \<^verbatim>\<open>%Y-%m-%d %H:%M:%S\<close>, then \<^verbatim>\<open>%Y-%m-%d\<close>, and returns the first parse that
  succeeds; for an empty or absent input and for a string that none of the three formats
  matches, such as \<^verbatim>\<open>"03/14/2024"\<close>, it returns no value and raises nothing. A string
  in each of the three formats gives its year, month and day.
\<close>

theorem parse_date_contract:
  "parse_date (PStr s) =
     Inr (if s = [] then None
          else (case strptime s fmt_micro of Inr d \<Rightarrow> Some d | Inl _ \<Rightarrow>
               (case strptime s fmt_seconds of Inr d \<Rightarrow> Some d | Inl _ \<Rightarrow>
               (case strptime s fmt_date of Inr d \<Rightarrow> Some d | Inl _ \<Rightarrow> None)))) \<and>
   parse_date PNone = Inr None \<and>
   parse_date (PStr ''03/14/2024'') = Inr None \<and>
   parse_date (PStr ''2024-03-14 10:20:30.123456'') =
     Inr (Some \<lparr>year = 2024, month = 3, day = 14, hour = 10, minute = 20, second = 30,
                 microsecond = 123456\<rparr>) \<and>
   parse_date (PStr ''2024-03-14 10:20:30'') =
     Inr (Some \<lparr>year = 2024, month = 3, day = 14, hour = 10, minute = 20, second = 30,
                 microsecond = 0\<rparr>) \<and>
   parse_date (PStr ''2024-03-14'') =
     Inr (Some \<lparr>year = 2024, month = 3, day = 14, hour = 0, minute = 0, second = 0,
                 microsecond = 0\<rparr>)"
proof (intro conjI)
  show "parse_date (PStr s) =
     Inr (if s = [] then None
          else (case strptime s fmt_micro of Inr d \<Rightarrow> Some d | Inl _ \<Rightarrow>
               (case strptime s fmt_seconds of Inr d \<Rightarrow> Some d | Inl _ \<Rightarrow>
               (case strptime s fmt_date of Inr d \<Rightarrow> Some d | Inl _ \<Rightarrow> None))))"
    by (simp add: parse_date_def date_formats_def try_formats_three del: try_formats.simps)
  show "parse_date PNone = Inr None"
    by (simp add: parse_date_def)
  show "parse_date (PStr ''03/14/2024'') = Inr None"
    by code_simp
  show "parse_date (PStr ''2024-03-14 10:20:30.123456'') =
     Inr (Some \<lparr>year = 2024, month = 3, day = 14, hour = 10, minute = 20, second = 30,
                 microsecond = 123456\<rparr>)"
    by code_simp
  show "parse_date (PStr ''2024-03-14 10:20:30'') =
     Inr (Some \<lparr>year = 2024, month = 3, day = 14, hour = 10, minute = 20, second = 30,
                 microsecond = 0\<rparr>)"
    by code_simp
  show "parse_date (PStr ''2024-03-14'') =
     Inr (Some \<lparr>year = 2024, month = 3, day = 14, hour = 0, minute = 0, second = 0,
                 microsecond = 0\<rparr>)"
    by code_simp
qed

theorem parse_date_contract_witness:
  "parse_date (PStr ''2024-06-15 08:09:10'') =
     Inr (Some \<lparr>year = 2024, month = 6, day = 15, hour = 8, minute = 9, second = 10,
                 microsecond = 0\<rparr>)"
proof -
  have a: "strptime ''2024-06-15 08:09:10'' fmt_micro = Inl ValueError"
    by code_simp
  have b: "strptime ''2024-06-15 08:09:10'' fmt_seconds =
             Inr \<lparr>year = 2024, month = 6, day = 15, hour = 8, minute = 9, second = 10,
                  microsecond = 0\<rparr>"
    by code_simp
  from parse_date_contract[of "''2024-06-15 08:09:10''"] a b show ?thesis
    by simp
qed

text \<open>
  Claim C2. The month of a normalised record is to be the integer month, 1 to 12, of its
  discovered date, in both scripts. Both parse \<^verbatim>\<open>"2024-06-15"\<close> to that day at
  midnight, and the backfill script stores the int 6 as its month; the \<^verbatim>\<open>extract_month\<close>
  of the delta script returns the text \<^verbatim>\<open>"06"\<close> of \<^verbatim>\<open>strftime("%m")\<close>, and that is
  what the delta run stores for a record of June 2025.
\<close>

theorem update_data_month_is_text:
  "parse_date (PStr ''2024-06-15'') =
     Inr (Some \<lparr>year = 2024, month = 6, day = 15, hour = 0, minute = 0, second = 0,
                 microsecond = 0\<rparr>) \<and>
   update_data_extract_month
      (Some \<lparr>year = 2024, month = 6, day = 15, hour = 0, minute = 0, second = 0,
             microsecond = 0\<rparr>) = PStr ''06'' \<and>
   initial_load_extract_month
      (Some \<lparr>year = 2024, month = 6, day = 15, hour = 0, minute = 0, second = 0,
             microsecond = 0\<rparr>) = PInt 6 \<and>
   map row_month (tables (fst (process_and_save_delta no_faults
          (Body (PList [PDict [(''discovered'', PStr ''2025-06-15'')]])) empty_world)) 2025)
     = [PStr ''06''] \<and>
   map row_month (tables (fst (process_and_save_data_by_year no_faults
          (Body (PList [PDict [(''discovered'', PStr ''2024-06-15'')]])) 2024 empty_world)) 2024)
     = [PInt 6] \<and>
   map discovered_date (tables (fst (process_and_save_data_by_year no_faults
          (Body (PList [PDict [(''discovered'', PStr ''2024-06-15'')]])) 2024 empty_world)) 2024)
     = [Some \<lparr>year = 2024, month = 6, day = 15, hour = 0, minute = 0, second = 0,
              microsecond = 0\<rparr>]"
  by code_simp

section \<open>Null fields\<close>

text \<open>
  Claim C5. A record whose \<^verbatim>\<open>group_name\<close>, \<^verbatim>\<open>country\<close> or \<^verbatim>\<open>post_title\<close> key is
  present with the value null is to be normalised without error. In both scripts
  \<^verbatim>\<open>item.get(key, default)\<close> returns the null, \<^verbatim>\<open>.strip()\<close> on it raises
  \<^verbatim>\<open>AttributeError\<close>, and the run ends with that exception before anything is inserted.
\<close>

theorem null_field_raises:
  "snd (process_and_save_data_by_year no_faults
          (Body (PList [PDict [(''discovered'', PStr ''2024-06-15''), (''country'', PNone)]]))
          2024 empty_world) = Some AttributeError \<and>
   tables (fst (process_and_save_data_by_year no_faults
          (Body (PList [PDict [(''discovered'', PStr ''2024-06-15''), (''country'', PNone)]]))
          2024 empty_world)) 2024 = [] \<and>
   initial_load_body 2024
      (PDict [(''discovered'', PStr ''2024-06-15''), (''group_name'', PNone)])
     = Inl AttributeError \<and>
   initial_load_body 2024
      (PDict [(''discovered'', PStr ''2024-06-15''), (''post_title'', PNone)])
     = Inl AttributeError \<and>
   update_data_body None
      (PDict [(''discovered'', PStr ''2025-06-15''), (''group_name'', PNone)])
     = Inl AttributeError \<and>
   snd (process_and_save_delta no_faults
          (Body (PList [PDict [(''discovered'', PStr ''2025-06-15''), (''country'', PNone)]]))
          empty_world) = Some AttributeError"
  by code_simp

section \<open>The watermark filter\<close>

text \<open>
  Claim C4. In the delta script, for every fetched list and every watermark, the records
  kept are exactly the valid ones (a discovered date that parses, of year 2025) whose
  discovered date is strictly greater than the watermark: a record at the watermark is
  left out, and without a watermark every valid record is kept.
\<close>

theorem delta_keeps_strictly_newer:
  assumes "for_items (update_data_body wm) items [] = Inr kept"
  shows "map discovered_date kept =
           map Some (filter (\<lambda>d. year d = 2025 \<and>
                                  (case wm of None \<Rightarrow> True | Some w \<Rightarrow> dt_less w d))
                            (List.map_filter discovered_of items)) \<and>
         wm \<notin> set (map discovered_date kept) \<and>
         (\<forall>valid w. for_items (update_data_body None) items [] = Inr valid \<longrightarrow> wm = Some w \<longrightarrow>
            kept = filter (\<lambda>r. case discovered_date r of None \<Rightarrow> False
                                | Some d \<Rightarrow> dt_less w d) valid)"
proof (intro conjI allI impI)
  show dates: "map discovered_date kept =
           map Some (filter (\<lambda>d. year d = 2025 \<and>
                                  (case wm of None \<Rightarrow> True | Some w \<Rightarrow> dt_less w d))
                            (List.map_filter discovered_of items))"
    using assms by (rule delta_dates)
  show "wm \<notin> set (map discovered_date kept)"
    unfolding dates by (cases wm) (auto simp: dt_less_irrefl)
  fix valid w
  assume "for_items (update_data_body None) items [] = Inr valid" "wm = Some w"
  with delta_rows[of items valid w] assms
  show "kept = filter (\<lambda>r. case discovered_date r of None \<Rightarrow> False
                                | Some d \<Rightarrow> dt_less w d) valid"
    by simp
qed

theorem delta_keeps_strictly_newer_witness:
  "for_items
     (update_data_body (Some \<lparr>year = 2025, month = 3, day = 1, hour = 0, minute = 0,
                              second = 0, microsecond = 0\<rparr>))
     [PDict [(''discovered'', PStr ''2025-02-28'')],
      PDict [(''discovered'', PStr ''2025-03-01'')],
      PDict [(''discovered'', PStr ''2025-03-02'')]] []
     = Inr [sample_row\<lparr>row_month := PStr ''03''\<rparr>] \<and>
   map Some
     (filter (\<lambda>d. year d = 2025 \<and>
                  (case Some \<lparr>year = 2025, month = 3, day = 1, hour = 0, minute = 0,
                               second = 0, microsecond = 0\<rparr> of
                     None \<Rightarrow> True
                   | Some w \<Rightarrow> dt_less w d))
        (List.map_filter discovered_of
           [PDict [(''discovered'', PStr ''2025-02-28'')],
            PDict [(''discovered'', PStr ''2025-03-01'')],
            PDict [(''discovered'', PStr ''2025-03-02'')]]))
     = [Some \<lparr>year = 2025, month = 3, day = 2, hour = 0, minute = 0, second = 0,
              microsecond = 0\<rparr>]"
proof -
  have run: "for_items
     (update_data_body (Some \<lparr>year = 2025, month = 3, day = 1, hour = 0, minute = 0,
                              second = 0, microsecond = 0\<rparr>))
     [PDict [(''discovered'', PStr ''2025-02-28'')],
      PDict [(''discovered'', PStr ''2025-03-01'')],
      PDict [(''discovered'', PStr ''2025-03-02'')]] []
     = Inr [sample_row\<lparr>row_month := PStr ''03''\<rparr>]"
    by code_simp
  have dates: "map discovered_date [sample_row\<lparr>row_month := PStr ''03''\<rparr>] =
      [Some \<lparr>year = 2025, month = 3, day = 2, hour = 0, minute = 0, second = 0,
              microsecond = 0\<rparr>]"
    by (simp add: sample_row_def)
  from delta_keeps_strictly_newer[OF run, THEN conjunct1] dates
  have "map Some
     (filter (\<lambda>d. year d = 2025 \<and>
                  (case Some \<lparr>year = 2025, month = 3, day = 1, hour = 0, minute = 0,
                               second = 0, microsecond = 0\<rparr> of
                     None \<Rightarrow> True
                   | Some w \<Rightarrow> dt_less w d))
        (List.map_filter discovered_of
           [PDict [(''discovered'', PStr ''2025-02-28'')],
            PDict [(''discovered'', PStr ''2025-03-01'')],
            PDict [(''discovered'', PStr ''2025-03-02'')]]))
     = [Some \<lparr>year = 2025, month = 3, day = 2, hour = 0, minute = 0, second = 0,
              microsecond = 0\<rparr>]"
    by (rule trans[OF sym])
  with run show ?thesis by (rule conjI)
qed

section \<open>Partitions\<close>

text \<open>
  Claim C6. Every line stored in a partition has a discovered date that is not null and
  whose year is the year of the partition: both scripts keep this true of every table,
  a backfill run whose truncate succeeded leaves only lines of its year in its table,
  and a delta run adds to the table of 2025 lines of 2025 only.
\<close>

theorem stored_rows_match_partition_year:
  "(list_all (in_partition p) (tables w p) \<longrightarrow>
      list_all (in_partition p) (tables (fst (process_and_save_data_by_year f resp y w)) p) \<and>
      list_all (in_partition p) (tables (fst (process_and_save_delta f resp w)) p)) \<and>
   (truncate_step f = DbOk \<longrightarrow>
      list_all (in_partition y) (tables (fst (process_and_save_data_by_year f resp y w)) y)) \<and>
   (\<exists>added. list_all (in_partition 2025) added \<and>
      tables (fst (process_and_save_delta f resp w)) = (tables w)(2025 := tables w 2025 @ added))"
proof (intro conjI impI)
  assume a: "list_all (in_partition p) (tables w p)"
  from process_and_save_data_by_year_tables[of y f resp w] a
  show "list_all (in_partition p) (tables (fst (process_and_save_data_by_year f resp y w)) p)"
    by (auto simp: fun_upd_def split: if_splits)
  from process_and_save_delta_tables[of f resp w] a
  show "list_all (in_partition p) (tables (fst (process_and_save_delta f resp w)) p)"
    by (auto simp: fun_upd_def)
next
  assume "truncate_step f = DbOk"
  with process_and_save_data_by_year_tables[of y f resp w]
  show "list_all (in_partition y) (tables (fst (process_and_save_data_by_year f resp y w)) y)"
    by auto
next
  show "\<exists>added. list_all (in_partition 2025) added \<and>
      tables (fst (process_and_save_delta f resp w)) = (tables w)(2025 := tables w 2025 @ added)"
    by (rule process_and_save_delta_tables)
qed

theorem stored_rows_match_partition_year_witness:
  "list_all (in_partition 2024) (tables empty_world 2024) \<and>
   map discovered_date (tables (fst (process_and_save_data_by_year no_faults
          (Body (PList [PDict [(''discovered'', PStr ''2023-12-31'')],
                        PDict [(''discovered'', PStr ''2024-01-01'')]])) 2024 empty_world)) 2024)
     = [Some \<lparr>year = 2024, month = 1, day = 1, hour = 0, minute = 0, second = 0,
              microsecond = 0\<rparr>] \<and>
   list_all (in_partition 2024) (tables (fst (process_and_save_data_by_year no_faults
          (Body (PList [PDict [(''discovered'', PStr ''2023-12-31'')],
                        PDict [(''discovered'', PStr ''2024-01-01'')]])) 2024 empty_world)) 2024)"
proof -
  have h: "list_all (in_partition 2024) (tables empty_world 2024)"
    by (simp add: empty_world_def)
  have d: "map discovered_date (tables (fst (process_and_save_data_by_year no_faults
          (Body (PList [PDict [(''discovered'', PStr ''2023-12-31'')],
                        PDict [(''discovered'', PStr ''2024-01-01'')]])) 2024 empty_world)) 2024)
     = [Some \<lparr>year = 2024, month = 1, day = 1, hour = 0, minute = 0, second = 0,
              microsecond = 0\<rparr>]"
    by code_simp
  from stored_rows_match_partition_year[where p = 2024 and w = empty_world and y = 2024
         and f = no_faults
         and resp = "Body (PList [PDict [(''discovered'', PStr ''2023-12-31'')],
                                  PDict [(''discovered'', PStr ''2024-01-01'')]])"] h d
  show ?thesis
    by blast
qed

text \<open>
  Claim C9. A delta run never truncates or deletes: after the run the table of 2025 is
  what it was before, followed by the lines the run appended, and no other table has
  changed.
\<close>

theorem delta_only_appends:
  "\<exists>added. tables (fst (process_and_save_delta f resp w)) =
             (tables w)(2025 := tables w 2025 @ added)"
  using process_and_save_delta_tables[of f resp w] by blast

theorem delta_only_appends_witness:
  "\<exists>added. tables (fst (process_and_save_delta no_faults
          (Body (PList [PDict [(''discovered'', PStr ''2025-03-03'')]])) stocked_world)) 2025
      = sample_row # added"
proof -
  from delta_only_appends[of no_faults
          "Body (PList [PDict [(''discovered'', PStr ''2025-03-03'')]])" stocked_world]
  obtain added where "tables (fst (process_and_save_delta no_faults
          (Body (PList [PDict [(''discovered'', PStr ''2025-03-03'')]])) stocked_world)) =
             (tables stocked_world)(2025 := tables stocked_world 2025 @ added)"
    by blast
  then have "tables (fst (process_and_save_delta no_faults
          (Body (PList [PDict [(''discovered'', PStr ''2025-03-03'')]])) stocked_world)) 2025
      = sample_row # added"
    by (simp add: stocked_world_def)
  then show ?thesis by blast
qed

text \<open>
  Claim C8. When the feed answers with an empty list, or fails after its retries, a
  backfill run whose truncate succeeded returns with its table empty and nothing
  inserted, and a delta run returns with every table and both snapshot directories as
  they were.
\<close>

theorem empty_fetch_guard:
  assumes "resp = RequestFailed \<or> resp = Body (PList [])"
  shows "(truncate_step f = DbOk \<longrightarrow>
            snd (process_and_save_data_by_year f resp y w) = None \<and>
            tables (fst (process_and_save_data_by_year f resp y w)) = (tables w)(y := [])) \<and>
         snd (process_and_save_delta f resp w) = None \<and>
         tables (fst (process_and_save_delta f resp w)) = tables w \<and>
         new_records (fst (process_and_save_delta f resp w)) = new_records w \<and>
         current_state (fst (process_and_save_delta f resp w)) = current_state w"
proof -
  have backfill: "snd (fetch_data resp w') = PList []" for w'
    using assms by (auto simp: fetch_data_def)
  have delta: "snd (fetch_delta_data resp w') = PList []" for w'
    using assms by (auto simp: fetch_delta_data_def)
  have b: "truncate_step f = DbOk \<longrightarrow>
            snd (process_and_save_data_by_year f resp y w) = None \<and>
            tables (fst (process_and_save_data_by_year f resp y w)) = (tables w)(y := [])"
  proof
    assume ok: "truncate_step f = DbOk"
    define v where "v = logger INFO (TruncateDone y) (w\<lparr>tables := (tables w)(y := [])\<rparr>)"
    have c: "clear_existing_data f y w = (v, None)"
      using ok by (simp add: clear_existing_data_def v_def)
    obtain v2 yearly_data where fd: "fetch_data resp v = (v2, yearly_data)"
      by (cases "fetch_data resp v")
    have yd: "yearly_data = PList []"
      using backfill[of v] fd by simp
    have run: "process_and_save_data_by_year f resp y w = (logger ERROR (NoDataForYear y) v2, None)"
      using c fd yd by (simp add: process_and_save_data_by_year_def)
    have "tables v2 = (tables w)(y := [])"
      using fetch_data_eq(1)[OF fd] by (simp add: v_def)
    with run show "snd (process_and_save_data_by_year f resp y w) = None \<and>
            tables (fst (process_and_save_data_by_year f resp y w)) = (tables w)(y := [])"
      by simp
  qed
  obtain w1 latest_date where g: "get_latest_record_date f w = (w1, latest_date)"
    by (cases "get_latest_record_date f w")
  obtain w2 new_data where
    h: "fetch_delta_data resp (logger INFO (LatestDate latest_date) w1) = (w2, new_data)"
    by (cases "fetch_delta_data resp (logger INFO (LatestDate latest_date) w1)")
  have nd: "new_data = PList []"
    using delta[of "logger INFO (LatestDate latest_date) w1"] h by simp
  have run: "process_and_save_delta f resp w = (logger INFO NoNewData w2, None)"
    using g h nd by (simp add: process_and_save_delta_def)
  have "tables w2 = tables w" "new_records w2 = new_records w"
    "current_state w2 = current_state w"
    using get_latest_record_date_eq[OF g] fetch_delta_data_eq[OF h] by simp_all
  with run b show ?thesis by simp
qed

theorem empty_fetch_guard_witness:
  "tables (fst (process_and_save_data_by_year no_faults RequestFailed 2025 stocked_world)) 2025
     = [] \<and>
   tables (fst (process_and_save_delta no_faults RequestFailed stocked_world)) 2025
     = [sample_row] \<and>
   new_records (fst (process_and_save_delta no_faults RequestFailed stocked_world)) = [] \<and>
   current_state (fst (process_and_save_delta no_faults RequestFailed stocked_world)) = []"
  using empty_fetch_guard[of RequestFailed no_faults 2025 stocked_world]
  by (simp add: no_faults_def stocked_world_def)

section \<open>Database failures\<close>

text \<open>
  Claim C3, as the program has it. A failed truncate ends the backfill run: the error is
  logged and raised again, with nothing fetched or inserted. A failed insert is logged
  and raised again in both scripts, the table unchanged, and the connection helper of the
  delta script logs and raises a failed connection. A failure of the delta script's query
  for the latest date, though, is logged and turned into no value: the run goes on as if
  the table were empty and appends every valid record of the feed.
\<close>

theorem database_failures:
  "(truncate_step f \<noteq> DbOk \<longrightarrow>
      process_and_save_data_by_year f resp y w =
        (logger ERROR (TruncateError y) w, Some DatabaseError)) \<and>
   (insert_step f \<noteq> DbOk \<longrightarrow>
      initial_load_write f y df w = (logger ERROR SaveError w, Some DatabaseError) \<and>
      snd (update_data_write f df w) = Some DatabaseError \<and>
      tables (fst (update_data_write f df w)) = tables w \<and>
      last (log (fst (update_data_write f df w))) = (ERROR, SaveError)) \<and>
   get_db_connection ConnectFails w = (logger ERROR ConnectError w, Some DatabaseError) \<and>
   (latest_date_step f \<noteq> DbOk \<longrightarrow>
      snd (get_latest_record_date f w) = None \<and>
      tables (fst (get_latest_record_date f w)) = tables w \<and>
      last (log (fst (get_latest_record_date f w))) = (ERROR, LatestDateError)) \<and>
   (latest_date_step g \<noteq> DbOk \<longrightarrow> insert_step g = DbOk \<longrightarrow> py_iter body = Inr items \<longrightarrow>
    for_items (update_data_body None) items [] = Inr kept \<longrightarrow>
      tables (fst (process_and_save_delta g (Body body) w)) 2025 =
        tables w 2025 @ clean_frame kept)"
proof -
  have "latest_date_step g \<noteq> DbOk \<longrightarrow> insert_step g = DbOk \<longrightarrow> py_iter body = Inr items \<longrightarrow>
    for_items (update_data_body None) items [] = Inr kept \<longrightarrow>
      tables (fst (process_and_save_delta g (Body body) w)) 2025 =
        tables w 2025 @ clean_frame kept"
    using delta_run_with_lost_watermark by blast
  then show ?thesis
    by (cases "latest_date_step f")
       (auto simp: process_and_save_data_by_year_def clear_existing_data_def
          initial_load_write_def update_data_write_def get_db_connection_def
          get_latest_record_date_def Let_def)
qed

theorem database_failures_witness:
  "process_and_save_data_by_year (no_faults\<lparr>truncate_step := StatementFails\<rparr>)
       (Body (PList [])) 2025 stocked_world
     = (logger ERROR (TruncateError 2025) stocked_world, Some DatabaseError) \<and>
   snd (get_latest_record_date watermark_fault stocked_world) = None \<and>
   snd (update_data_write (no_faults\<lparr>insert_step := ConnectFails\<rparr>) [sample_row] stocked_world)
     = Some DatabaseError"
  using database_failures[where f = "no_faults\<lparr>truncate_step := StatementFails\<rparr>"
          and resp = "Body (PList [])" and y = 2025 and w = stocked_world]
        database_failures[where f = watermark_fault and w = stocked_world]
        database_failures[where f = "no_faults\<lparr>insert_step := ConnectFails\<rparr>"
          and w = stocked_world and df = "[sample_row]"]
  by (simp add: no_faults_def watermark_fault_def)

text \<open>
  The claim as stated, that a failed query for the latest date propagates, does not hold:
  with the connection for that query failing, the run returns normally and appends the
  record of 2 March 2025 a second time, where a run that reads the watermark leaves the
  table as it is.
\<close>

theorem latest_date_failure_recovered:
  "snd (get_latest_record_date watermark_fault stocked_world) = None \<and>
   snd (process_and_save_delta watermark_fault
          (Body (PList [PDict [(''discovered'', PStr ''2025-03-02'')]])) stocked_world) = None \<and>
   length (tables (fst (process_and_save_delta watermark_fault
          (Body (PList [PDict [(''discovered'', PStr ''2025-03-02'')]])) stocked_world)) 2025) = 2 \<and>
   length (tables (fst (process_and_save_delta no_faults
          (Body (PList [PDict [(''discovered'', PStr ''2025-03-02'')]])) stocked_world)) 2025) = 1"
  by code_simp

end
